theory Spec2Isabelle
  imports
    Main
    "HOL-Library.Multiset"
    "HOL-Library.Char_ord"
    "HOL-Library.List_Lexorder"
    "HOL-Library.Product_Lexorder"
begin

section \<open>Data model of the Actiance export\<close>

text \<open>
  The embedding follows \<^verbatim>\<open>actiance_export.go\<close>. Timestamps are Go \<^verbatim>\<open>int64\<close> values; the
  export compares and copies them and never does arithmetic on them, so they are
  integers here. Go strings are byte strings compared bytewise, which is the
  lexicographic order on \<^typ>\<open>string\<close> with characters ordered by their code.
  Record fields carry a short prefix of their struct, since several structs of the source
  share field names. The \<^verbatim>\<open>XMLName\<close> fields only name the XML tag and are left out.
\<close>

type_synonym error = string

text \<open>
  \<^verbatim>\<open>model.NewAppError(where, id, nil, "", status).Wrap(err)\<close>: the place, the message
  id, the HTTP status (500 is \<^verbatim>\<open>http.StatusInternalServerError\<close>) and the wrapped cause.
\<close>

datatype AppError =
  AppError (ae_Where: string) (ae_Id: string) (ae_StatusCode: int) (ae_Wrapped: error)

record JoinExport =
  je_UserEmail :: string
  je_UserType :: string
  je_JoinTime :: int
  je_CorporateEmailID :: string

record LeaveExport =
  le_UserEmail :: string
  le_UserType :: string
  le_LeaveTime :: int
  le_CorporateEmailID :: string

record PostExport =
  pe_UserEmail :: string
  pe_UserType :: string
  pe_PostTime :: int
  pe_Message :: string
  pe_PreviewsPost :: string

record FileUploadStartExport =
  fs_UserEmail :: string
  fs_UploadStartTime :: int
  fs_Filename :: string
  fs_FilePath :: string

record FileUploadStopExport =
  fe_UserEmail :: string
  fe_UploadStopTime :: int
  fe_Filename :: string
  fe_FilePath :: string
  fe_Status :: string

text \<open>
  The entries of \<^verbatim>\<open>Elements []any\<close>: the source stores pointers to a \<^verbatim>\<open>PostExport\<close>, a
  \<^verbatim>\<open>FileUploadStartExport\<close> or a \<^verbatim>\<open>FileUploadStopExport\<close> there.
\<close>

datatype Element =
  Post PostExport
  | UploadStart FileUploadStartExport
  | UploadStop FileUploadStopExport

record ChannelExport =
  ce_Perspective :: string
  ce_ChannelId :: string
  ce_RoomId :: string
  ce_StartTime :: int
  ce_JoinEvents :: "JoinExport list"
  ce_Elements :: "Element list"
  ce_UploadStarts :: "FileUploadStartExport list"
  ce_UploadStops :: "FileUploadStopExport list"
  ce_LeaveEvents :: "LeaveExport list"
  ce_EndTime :: int

record RootNode =
  rn_XMLNS :: string
  rn_Channels :: "ChannelExport list"

subsection \<open>Types declared outside the file\<close>

text \<open>
  The packages \<^verbatim>\<open>common_export\<close> and \<^verbatim>\<open>model\<close> are not part of the file. Their structs
  appear here with exactly the fields the file reads or writes. The pointer fields of
  \<^verbatim>\<open>model.MessageExport\<close> that the file dereferences without a nil test (channel id, post id,
  creation time, message, user email, user id, user name) are plain values: the data
  model requires them to be present in an accepted record. \<^verbatim>\<open>PostDeleteAt\<close> and
  \<^verbatim>\<open>PostProps\<close> are tested against nil and are options. The method \<^verbatim>\<open>PreviewID()\<close> is
  the field \<open>me_PreviewID\<close>.
\<close>

record Join =
  j_Email :: string
  j_Datetime :: int
  j_IsBot :: bool

record Leave =
  l_Email :: string
  l_Datetime :: int
  l_IsBot :: bool

record ChannelMember =
  cm_Email :: string
  cm_UserId :: string
  cm_IsBot :: bool
  cm_Username :: string

record MetadataChannel =
  mc_ChannelId :: string
  mc_ChannelType :: string
  mc_ChannelName :: string
  mc_ChannelDisplayName :: string
  mc_StartTime :: int
  mc_EndTime :: int

record Metadata =
  md_Channels :: "string \<rightharpoonup> MetadataChannel"
  md_MessagesCount :: int
  md_AttachmentsCount :: int
  md_StartTime :: int
  md_EndTime :: int

record FileInfo =
  fi_Name :: string
  fi_Path :: string
  fi_DeleteAt :: int

record MessageExport =
  me_ChannelId :: string
  me_PostId :: string
  me_PostCreateAt :: int
  me_PostDeleteAt :: "int option"
  me_PostProps :: "string option"
  me_PostMessage :: string
  me_PostFileIds :: "string list"
  me_UserEmail :: string
  me_UserId :: string
  me_Username :: string
  me_IsBot :: bool
  me_PreviewID :: string

text \<open>The struct declared inside \<^verbatim>\<open>buildChannelExport\<close>, and its zero value.\<close>

record StillJoinedInfo =
  sj_Time :: int
  sj_Type :: string

definition zeroStillJoinedInfo :: StillJoinedInfo where
  "zeroStillJoinedInfo = \<lparr>sj_Time = 0, sj_Type = ''''\<rparr>"

text \<open>Reading a Go map at a key it does not hold gives the zero value.\<close>

definition lookupStillJoined :: "(string \<rightharpoonup> StillJoinedInfo) \<Rightarrow> string \<Rightarrow> StillJoinedInfo" where
  "lookupStillJoined stillJoined email =
     (case stillJoined email of None \<Rightarrow> zeroStillJoinedInfo | Some v \<Rightarrow> v)"

subsection \<open>The collaborators\<close>

text \<open>
  Everything the file calls and does not define is a field of the environment: the store
  lookups, the helpers of \<^verbatim>\<open>common_export\<close>, the constants of other packages, the JSON
  and XML codecs, \<^verbatim>\<open>path.Join\<close>, and the two file backends. A lookup or a backend call
  answers with an error or a value. The type \<open>'h\<close> is the store's membership-history row,
  which the file only hands on. Go leaves the order of a \<^verbatim>\<open>range\<close> over a map open:
  \<open>rangeStillJoined\<close> and \<open>rangeChannels\<close> give the order in which the keys of a map are
  visited, and the theorems that need it assume that this is an enumeration of the keys.
\<close>

record 'h Env =
  GetForPost :: "string \<Rightarrow> error + FileInfo list"
  GetUsersInChannelDuring :: "int \<Rightarrow> int \<Rightarrow> string \<Rightarrow> error + 'h list"
  GetJoinsAndLeavesForChannel ::
    "int \<Rightarrow> int \<Rightarrow> 'h list \<Rightarrow> (string \<rightharpoonup> ChannelMember) \<Rightarrow> Join list \<times> Leave list"
  ChannelTypeDisplayName :: "string \<Rightarrow> string"
  MetadataUpdate :: "Metadata \<Rightarrow> MessageExport \<Rightarrow> int \<Rightarrow> Metadata"
  MissingFileMessage :: string
  PostPropsDeleteBy :: string
  jsonUnmarshal :: "string \<Rightarrow> (string \<rightharpoonup> string) option"
  xmlHeader :: string
  xmlEncode :: "RootNode \<Rightarrow> error + string"
  pathJoin :: "string \<Rightarrow> string \<Rightarrow> string"
  TryWriteFileContext :: "string \<Rightarrow> string \<Rightarrow> error option"
  WriteFile :: "string \<Rightarrow> string \<Rightarrow> error option"
  Reader :: "string \<Rightarrow> error + string"
  rangeStillJoined :: "(string \<rightharpoonup> StillJoinedInfo) \<Rightarrow> string list"
  rangeChannels :: "(string \<rightharpoonup> MetadataChannel) \<Rightarrow> string list"

section \<open>buildChannelExport\<close>

subsection \<open>The sort of the leave events\<close>

text \<open>The comparison handed to \<^verbatim>\<open>sort.Slice\<close>.\<close>

definition leaveLess :: "LeaveExport \<Rightarrow> LeaveExport \<Rightarrow> bool" where
  "leaveLess a b =
     (if le_LeaveTime a = le_LeaveTime b then le_UserEmail a < le_UserEmail b
      else le_LeaveTime a < le_LeaveTime b)"

text \<open>
  \<^verbatim>\<open>sort.Slice\<close> belongs to the Go library. It is modelled by the insertion sort that the
  library runs on a slice of fewer than twelve elements: element \<open>i\<close> is swapped towards
  the front while it is less than its left neighbour. \<open>insertBack\<close> is that inner loop on
  the sorted prefix, held back to front (its head is the element at \<open>j - 1\<close>).
  The library promises a sorted permutation and nothing about the order of elements that
  the comparison does not tell apart; the insertion sort keeps those in their order of
  arrival. Here the comparison tells two leave events apart unless they agree in time and
  email.
\<close>

fun insertBack :: "('a \<Rightarrow> 'a \<Rightarrow> bool) \<Rightarrow> 'a \<Rightarrow> 'a list \<Rightarrow> 'a list" where
  "insertBack lt x [] = [x]"
| "insertBack lt x (y # ys) =
     (if lt x y then y # insertBack lt x ys else x # y # ys)"

definition sortSlice :: "('a \<Rightarrow> 'a \<Rightarrow> bool) \<Rightarrow> 'a list \<Rightarrow> 'a list" where
  "sortSlice lt xs = rev (foldl (\<lambda>front x. insertBack lt x front) [] xs)"

subsection \<open>The three loops\<close>

definition joinExportOf :: "Join \<Rightarrow> JoinExport" where
  "joinExportOf join =
     \<lparr>je_UserEmail = j_Email join,
      je_UserType = (if j_IsBot join then ''bot'' else ''user''),
      je_JoinTime = j_Datetime join,
      je_CorporateEmailID = j_Email join\<rparr>"

definition leaveExportOf :: "Leave \<Rightarrow> LeaveExport" where
  "leaveExportOf leave =
     \<lparr>le_UserEmail = l_Email leave,
      le_UserType = (if l_IsBot leave then ''bot'' else ''user''),
      le_LeaveTime = l_Datetime leave,
      le_CorporateEmailID = l_Email leave\<rparr>"

text \<open>\<^verbatim>\<open>for _, join := range joins\<close>: appends the join event and updates the map.\<close>

fun joinsLoop ::
  "Join list \<Rightarrow> JoinExport list \<times> (string \<rightharpoonup> StillJoinedInfo)
     \<Rightarrow> JoinExport list \<times> (string \<rightharpoonup> StillJoinedInfo)" where
  "joinsLoop [] st = st"
| "joinsLoop (join # joins) (joinEvents, stillJoined) =
     (let userType = (if j_IsBot join then ''bot'' else ''user'');
          info = \<lparr>sj_Time = j_Datetime join, sj_Type = userType\<rparr>
      in joinsLoop joins
           (joinEvents @ [joinExportOf join],
            (case stillJoined (j_Email join) of
               None \<Rightarrow> stillJoined(j_Email join \<mapsto> info)
             | Some v \<Rightarrow>
                 if j_Datetime join > sj_Time v then stillJoined(j_Email join \<mapsto> info)
                 else stillJoined)))"

text \<open>\<^verbatim>\<open>for _, leave := range leaves\<close>: appends the leave event, and deletes the user.\<close>

fun leavesLoop ::
  "Leave list \<Rightarrow> LeaveExport list \<times> (string \<rightharpoonup> StillJoinedInfo)
     \<Rightarrow> LeaveExport list \<times> (string \<rightharpoonup> StillJoinedInfo)" where
  "leavesLoop [] st = st"
| "leavesLoop (leave # leaves) (leaveEvents, stillJoined) =
     leavesLoop leaves
       (leaveEvents @ [leaveExportOf leave],
        (if l_Datetime leave > sj_Time (lookupStillJoined stillJoined (l_Email leave))
         then stillJoined(l_Email leave := None)
         else stillJoined))"

text \<open>
  \<^verbatim>\<open>for email := range stillJoined\<close>, over the keys in the order \<open>emails\<close>: a leave event at
  the end of the window for each of them.
\<close>

fun stillJoinedLoop ::
  "int \<Rightarrow> (string \<rightharpoonup> StillJoinedInfo) \<Rightarrow> string list \<Rightarrow> LeaveExport list \<Rightarrow> LeaveExport list" where
  "stillJoinedLoop endTime stillJoined [] leaveEvents = leaveEvents"
| "stillJoinedLoop endTime stillJoined (email # emails) leaveEvents =
     stillJoinedLoop endTime stillJoined emails
       (leaveEvents @
        [\<lparr>le_UserEmail = email,
          le_UserType = sj_Type (lookupStillJoined stillJoined email),
          le_LeaveTime = endTime,
          le_CorporateEmailID = email\<rparr>])"

definition buildChannelExport ::
  "'h Env \<Rightarrow> MetadataChannel \<Rightarrow> (string \<rightharpoonup> ChannelMember) \<Rightarrow> Element list
     \<Rightarrow> AppError + ChannelExport" where
  "buildChannelExport env channel members elements =
     (case GetUsersInChannelDuring env (mc_StartTime channel) (mc_EndTime channel)
             (mc_ChannelId channel) of
        Inl err \<Rightarrow>
          Inl (AppError ''buildChannelExport'' ''ent.get_users_in_channel_during'' 500 err)
      | Inr channelMembersHistory \<Rightarrow>
          (let (joins, leaves) =
                 GetJoinsAndLeavesForChannel env (mc_StartTime channel) (mc_EndTime channel)
                   channelMembersHistory members;
               (joinEvents, stillJoined) = joinsLoop joins ([], Map.empty);
               (leaveEvents, stillJoined) = leavesLoop leaves ([], stillJoined);
               leaveEvents =
                 stillJoinedLoop (mc_EndTime channel) stillJoined
                   (rangeStillJoined env stillJoined) leaveEvents
           in Inr \<lparr>ce_Perspective = mc_ChannelDisplayName channel,
                   ce_ChannelId = mc_ChannelId channel,
                   ce_RoomId =
                     ChannelTypeDisplayName env (mc_ChannelType channel) @ '' - '' @
                     mc_ChannelName channel @ '' - '' @ mc_ChannelId channel,
                   ce_StartTime = mc_StartTime channel,
                   ce_JoinEvents = joinEvents,
                   ce_Elements = elements,
                   ce_UploadStarts = [],
                   ce_UploadStops = [],
                   ce_LeaveEvents = sortSlice leaveLess leaveEvents,
                   ce_EndTime = mc_EndTime channel\<rparr>))"

text \<open>
  The key the comparison orders by: \<open>leaveLess a b\<close> holds exactly when the key of \<open>a\<close>
  is below the key of \<open>b\<close> in the lexicographic order of pairs.
\<close>

definition leaveKey :: "LeaveExport \<Rightarrow> int \<times> string" where
  "leaveKey e = (le_LeaveTime e, le_UserEmail e)"




section \<open>The entries of one post\<close>

definition postToExportEntry :: "MessageExport \<Rightarrow> int \<Rightarrow> string \<Rightarrow> PostExport" where
  "postToExportEntry post createTime message =
     \<lparr>pe_UserEmail = me_UserEmail post,
      pe_UserType = (if me_IsBot post then ''bot'' else ''user''),
      pe_PostTime = createTime,
      pe_Message = message,
      pe_PreviewsPost = me_PreviewID post\<rparr>"

text \<open>
  The entries \<^verbatim>\<open>ActianceExport\<close> appends for the post itself, before it turns to the
  attachments: the message, and the deletion when the post has a positive deletion time
  and its properties, decoded as a JSON object, hold the key \<^verbatim>\<open>model.PostPropsDeleteBy\<close>.
  \<open>jsonUnmarshal\<close> answers \<open>None\<close> where \<^verbatim>\<open>json.Unmarshal\<close> returns an error; the
  function only asks whether the key is there, and the values of the object are strings
  here.
\<close>

definition postEntries :: "'h Env \<Rightarrow> MessageExport \<Rightarrow> Element list" where
  "postEntries env post =
     Post (postToExportEntry post (me_PostCreateAt post) (me_PostMessage post)) #
     (case me_PostDeleteAt post of
        None \<Rightarrow> []
      | Some deleteAt \<Rightarrow>
          if deleteAt > 0 then
            (case me_PostProps post of
               None \<Rightarrow> []
             | Some postProps \<Rightarrow>
                 (case jsonUnmarshal env postProps of
                    None \<Rightarrow> []
                  | Some props \<Rightarrow>
                      (case props (PostPropsDeleteBy env) of
                         None \<Rightarrow> []
                       | Some v \<Rightarrow>
                           [Post (postToExportEntry post deleteAt
                                    (''delete '' @ me_PostMessage post))])))
          else [])"

text \<open>\<^verbatim>\<open>for _, fileInfo := range fileInfos\<close> of \<^verbatim>\<open>postToAttachmentsEntries\<close>.\<close>

fun fileInfosLoop ::
  "MessageExport \<Rightarrow> FileInfo list
     \<Rightarrow> Element list \<times> Element list \<times> FileInfo list \<times> Element list
     \<Rightarrow> Element list \<times> Element list \<times> FileInfo list \<times> Element list" where
  "fileInfosLoop post [] acc = acc"
| "fileInfosLoop post (fileInfo # fileInfos)
     (startUploads, stopUploads, uploadedFiles, deleteFileMessages) =
     fileInfosLoop post fileInfos
       (startUploads @
          [UploadStart \<lparr>fs_UserEmail = me_UserEmail post,
                        fs_UploadStartTime = me_PostCreateAt post,
                        fs_Filename = fi_Name fileInfo,
                        fs_FilePath = fi_Path fileInfo\<rparr>],
        stopUploads @
          [UploadStop \<lparr>fe_UserEmail = me_UserEmail post,
                       fe_UploadStopTime = me_PostCreateAt post,
                       fe_Filename = fi_Name fileInfo,
                       fe_FilePath = fi_Path fileInfo,
                       fe_Status = ''Completed''\<rparr>],
        uploadedFiles @ [fileInfo],
        (if fi_DeleteAt fileInfo > 0 \<and> me_PostDeleteAt post \<noteq> None
         then deleteFileMessages @
                [Post (postToExportEntry post (the (me_PostDeleteAt post))
                         (''delete '' @ fi_Path fileInfo))]
         else deleteFileMessages))"

text \<open>
  The result is the four lists in the order of the source's return statement: the start
  entries, the stop entries, the uploaded files, the delete messages.
  \<open>GetForPost\<close> is \<^verbatim>\<open>db.FileInfo().GetForPost(id, true, true, false)\<close>.
\<close>

definition postToAttachmentsEntries ::
  "'h Env \<Rightarrow> MessageExport
     \<Rightarrow> AppError + (Element list \<times> Element list \<times> FileInfo list \<times> Element list)" where
  "postToAttachmentsEntries env post =
     (if length (me_PostFileIds post) = 0 then Inr ([], [], [], [])
      else
        (case GetForPost env (me_PostId post) of
           Inl err \<Rightarrow>
             Inl (AppError ''postToAttachmentsEntries''
                    ''ent.message_export.actiance_export.get_attachment_error'' 500 err)
         | Inr fileInfos \<Rightarrow> Inr (fileInfosLoop post fileInfos ([], [], [], []))))"

section \<open>writeExport\<close>

definition ActianceExportFilename :: string where
  "ActianceExportFilename = ''actiance_export.xml''"

definition ActianceWarningFilename :: string where
  "ActianceWarningFilename = ''warning.txt''"

definition XMLNS :: string where
  "XMLNS = ''http://www.w3.org/2001/XMLSchema-instance''"

text \<open>
  The calls made on the export backend, in the order they are made, each with its path
  and the bytes handed over. A call is recorded whether or not the backend then fails;
  whether it fails is the answer of the environment for that path and those bytes.
\<close>

datatype BackendCall =
  TryWriteFileContextCall string string
  | WriteFileCall string string

text \<open>\<^verbatim>\<open>strings.Join(elems, sep)\<close>\<close>

fun stringsJoin :: "string list \<Rightarrow> string \<Rightarrow> string" where
  "stringsJoin [] sep = []"
| "stringsJoin [x] sep = x"
| "stringsJoin (x # y # ys) sep = x @ sep @ stringsJoin (y # ys) sep"

definition writeFileAppError :: "error \<Rightarrow> AppError" where
  "writeFileAppError err =
     AppError ''ActianceExport.AtianceExport'' ''ent.actiance.export.write_file.appError'' 0 err"

text \<open>The line recorded for a file that cannot be opened.\<close>

definition missingFileLine :: "'h Env \<Rightarrow> FileInfo \<Rightarrow> string" where
  "missingFileLine env fileInfo =
     ''Warning:'' @ MissingFileMessage env @ '' - '' @ fi_Path fileInfo"

text \<open>
  \<^verbatim>\<open>for _, fileInfo := range uploadedFiles\<close>: a file that cannot be opened adds a warning
  line and the loop goes on; a file that cannot be copied ends the function with the error.
\<close>

fun uploadedFilesLoop ::
  "'h Env \<Rightarrow> string \<Rightarrow> FileInfo list \<Rightarrow> string list \<times> BackendCall list
     \<Rightarrow> (AppError + string list) \<times> BackendCall list" where
  "uploadedFilesLoop env exportDirectory [] (missingFiles, calls) = (Inr missingFiles, calls)"
| "uploadedFilesLoop env exportDirectory (fileInfo # fileInfos) (missingFiles, calls) =
     (case Reader env (fi_Path fileInfo) of
        Inl nErr \<Rightarrow>
          uploadedFilesLoop env exportDirectory fileInfos
            (missingFiles @ [missingFileLine env fileInfo], calls)
      | Inr attachmentSrc \<Rightarrow>
          (let destPath = pathJoin env exportDirectory (fi_Path fileInfo) in
           case WriteFile env destPath attachmentSrc of
             Some nErr \<Rightarrow>
               (Inl (writeFileAppError nErr), calls @ [WriteFileCall destPath attachmentSrc])
           | None \<Rightarrow>
               uploadedFilesLoop env exportDirectory fileInfos
                 (missingFiles, calls @ [WriteFileCall destPath attachmentSrc])))"

text \<open>
  The result is the pair the source returns, the warning count and the error (\<open>None\<close> is
  Go's nil), together with the calls made on the export backend. The named result
  \<^verbatim>\<open>warningCount\<close> is zero until the loop over the files has ended.
\<close>

definition writeExport ::
  "'h Env \<Rightarrow> RootNode \<Rightarrow> FileInfo list \<Rightarrow> string
     \<Rightarrow> (int \<times> AppError option) \<times> BackendCall list" where
  "writeExport env export uploadedFiles exportDirectory =
     (case xmlEncode env export of
        Inl err \<Rightarrow>
          ((0, Some (AppError ''ActianceExport.AtianceExport''
                       ''ent.actiance.export.marshalToXml.appError'' 0 err)), [])
      | Inr encoded \<Rightarrow>
          (let xmlData = xmlHeader env @ encoded;
               exportPath = pathJoin env exportDirectory ActianceExportFilename
           in case TryWriteFileContext env exportPath xmlData of
                Some err \<Rightarrow>
                  ((0, Some (writeFileAppError err)),
                   [TryWriteFileContextCall exportPath xmlData])
              | None \<Rightarrow>
                  (case uploadedFilesLoop env exportDirectory uploadedFiles
                          ([], [TryWriteFileContextCall exportPath xmlData]) of
                     (Inl appErr, calls) \<Rightarrow> ((0, Some appErr), calls)
                   | (Inr missingFiles, calls) \<Rightarrow>
                       (let warningCount = int (length missingFiles) in
                        if warningCount > 0 then
                          (let warningPath = pathJoin env exportDirectory ActianceWarningFilename;
                               warnings = stringsJoin missingFiles [CHR 0x0A]
                           in ((warningCount,
                                map_option writeFileAppError
                                  (TryWriteFileContext env warningPath warnings)),
                               calls @ [TryWriteFileContextCall warningPath warnings]))
                        else ((warningCount, None), calls)))))"

text \<open>
  What the loop over the uploaded files does with one file: it cannot be read, it is read
  and copied, or it is read and the copy fails. \<open>copyCall\<close> is the call that copies a
  readable file.
\<close>

definition readable :: "'h Env \<Rightarrow> FileInfo \<Rightarrow> bool" where
  "readable env fileInfo =
     (case Reader env (fi_Path fileInfo) of Inl nErr \<Rightarrow> False | Inr attachmentSrc \<Rightarrow> True)"

definition copyFails :: "'h Env \<Rightarrow> string \<Rightarrow> FileInfo \<Rightarrow> bool" where
  "copyFails env exportDirectory fileInfo =
     (case Reader env (fi_Path fileInfo) of
        Inl nErr \<Rightarrow> False
      | Inr attachmentSrc \<Rightarrow>
          WriteFile env (pathJoin env exportDirectory (fi_Path fileInfo)) attachmentSrc \<noteq> None)"

definition copyCall :: "'h Env \<Rightarrow> string \<Rightarrow> FileInfo \<Rightarrow> BackendCall" where
  "copyCall env exportDirectory fileInfo =
     WriteFileCall (pathJoin env exportDirectory (fi_Path fileInfo))
       (case Reader env (fi_Path fileInfo) of Inl nErr \<Rightarrow> [] | Inr attachmentSrc \<Rightarrow> attachmentSrc)"

section \<open>ActianceExport\<close>

text \<open>
  The accumulators of the loop over the posts. \<^verbatim>\<open>elementsByChannel\<close> and
  \<^verbatim>\<open>membersByChannel\<close> are Go maps that the function only reads by index, where a missing
  key reads as the empty slice and the empty map: they are total functions with these
  defaults. The two log lines of the function are not modelled.
\<close>

record Collected =
  elementsByChannel :: "string \<Rightarrow> Element list"
  allUploadedFiles :: "FileInfo list"
  metadata :: Metadata
  membersByChannel :: "string \<Rightarrow> (string \<rightharpoonup> ChannelMember)"

definition initialCollected :: Collected where
  "initialCollected =
     \<lparr>elementsByChannel = (\<lambda>c. []),
      allUploadedFiles = [],
      metadata =
        \<lparr>md_Channels = Map.empty, md_MessagesCount = 0, md_AttachmentsCount = 0,
         md_StartTime = 0, md_EndTime = 0\<rparr>,
      membersByChannel = (\<lambda>c. Map.empty)\<rparr>"

text \<open>\<^verbatim>\<open>for _, post := range posts\<close>; a nil post is \<open>None\<close> and is skipped.\<close>

fun postsLoop :: "'h Env \<Rightarrow> MessageExport option list \<Rightarrow> Collected \<Rightarrow> AppError + Collected" where
  "postsLoop env [] st = Inr st"
| "postsLoop env (None # posts) st = postsLoop env posts st"
| "postsLoop env (Some post # posts) st =
     (case postToAttachmentsEntries env post of
        Inl err \<Rightarrow> Inl err
      | Inr (startUploads, stopUploads, uploadedFiles, deleteFileMessages) \<Rightarrow>
          postsLoop env posts
            \<lparr>elementsByChannel =
               (elementsByChannel st)
                 (me_ChannelId post :=
                    elementsByChannel st (me_ChannelId post) @ postEntries env post @
                    startUploads @ stopUploads @ deleteFileMessages),
             allUploadedFiles = allUploadedFiles st @ uploadedFiles,
             metadata = MetadataUpdate env (metadata st) post (int (length uploadedFiles)),
             membersByChannel =
               (membersByChannel st)
                 (me_ChannelId post :=
                    (membersByChannel st (me_ChannelId post))
                      (me_UserId post \<mapsto>
                         \<lparr>cm_Email = me_UserEmail post, cm_UserId = me_UserId post,
                          cm_IsBot = me_IsBot post, cm_Username = me_Username post\<rparr>))\<rparr>)"

text \<open>
  \<^verbatim>\<open>for _, channel := range metadata.Channels\<close>: the channels of the map, in the order in
  which the environment visits its keys.
\<close>

definition rangedChannels :: "'h Env \<Rightarrow> Metadata \<Rightarrow> MetadataChannel list" where
  "rangedChannels env md = List.map_filter (md_Channels md) (rangeChannels env (md_Channels md))"

fun channelsLoop ::
  "'h Env \<Rightarrow> MetadataChannel list \<Rightarrow> Collected \<Rightarrow> ChannelExport list
     \<Rightarrow> AppError + ChannelExport list" where
  "channelsLoop env [] st channelExports = Inr channelExports"
| "channelsLoop env (channel # channels) st channelExports =
     (case buildChannelExport env channel
             (membersByChannel st (mc_ChannelId channel))
             (elementsByChannel st (mc_ChannelId channel)) of
        Inl err \<Rightarrow> Inl err
      | Inr channelExport \<Rightarrow>
          channelsLoop env channels st (channelExports @ [channelExport]))"

text \<open>
  The part of \<^verbatim>\<open>ActianceExport\<close> before it calls \<^verbatim>\<open>writeExport\<close>: the root node and the
  uploaded files it hands over, or the error it returns.
\<close>

definition exportRoot ::
  "'h Env \<Rightarrow> MessageExport option list \<Rightarrow> AppError + (RootNode \<times> FileInfo list)" where
  "exportRoot env posts =
     (case postsLoop env posts initialCollected of
        Inl err \<Rightarrow> Inl err
      | Inr st \<Rightarrow>
          (case channelsLoop env (rangedChannels env (metadata st)) st [] of
             Inl err \<Rightarrow> Inl err
           | Inr channelExports \<Rightarrow>
               Inr (\<lparr>rn_XMLNS = XMLNS, rn_Channels = channelExports\<rparr>, allUploadedFiles st)))"

definition ActianceExport ::
  "'h Env \<Rightarrow> MessageExport option list \<Rightarrow> string
     \<Rightarrow> (int \<times> AppError option) \<times> BackendCall list" where
  "ActianceExport env posts exportDirectory =
     (case exportRoot env posts of
        Inl err \<Rightarrow> ((0, Some err), [])
      | Inr (export, uploadedFiles) \<Rightarrow> writeExport env export uploadedFiles exportDirectory)"

text \<open>
  The events of a channel in the order of the document: the XML encoder writes the
  fields of \<^verbatim>\<open>ChannelExport\<close> in the order of their declaration.
\<close>

datatype Event =
  JoinEvent JoinExport
  | ElementEvent Element
  | UploadStartEvent FileUploadStartExport
  | UploadStopEvent FileUploadStopExport
  | LeaveEvent LeaveExport

definition channelEvents :: "ChannelExport \<Rightarrow> Event list" where
  "channelEvents ce =
     map JoinEvent (ce_JoinEvents ce) @ map ElementEvent (ce_Elements ce) @
     map UploadStartEvent (ce_UploadStarts ce) @ map UploadStopEvent (ce_UploadStops ce) @
     map LeaveEvent (ce_LeaveEvents ce)"

text \<open>The entries one post adds to its channel, in the order the loop appends them.\<close>

definition entriesOfPost :: "'h Env \<Rightarrow> MessageExport \<Rightarrow> Element list" where
  "entriesOfPost env post =
     (case postToAttachmentsEntries env post of
        Inl err \<Rightarrow> []
      | Inr (startUploads, stopUploads, uploadedFiles, deleteFileMessages) \<Rightarrow>
          postEntries env post @ startUploads @ stopUploads @ deleteFileMessages)"

text \<open>The posts of the input that are not nil, in their order.\<close>

fun presentPosts :: "MessageExport option list \<Rightarrow> MessageExport list" where
  "presentPosts [] = []"
| "presentPosts (None # posts) = presentPosts posts"
| "presentPosts (Some post # posts) = post # presentPosts posts"

section \<open>A sample run\<close>

text \<open>
  A small environment and a channel on which the functions can be evaluated. The channel
  \<open>c1\<close> has the window from 1000 to 2000; \<open>a@x\<close> joins at 1000, the bot \<open>b@x\<close> joins at
  1500 and leaves at 1600, \<open>c@x\<close> joins at 1700. The store fails for the post \<open>p9\<close> and
  for the channel \<open>c9\<close>, the file \<open>f/old.png\<close> cannot be read, and the file
  \<open>f/full.bin\<close> cannot be copied.
\<close>

definition demoJoins :: "Join list" where
  "demoJoins =
     [\<lparr>j_Email = ''a@x'', j_Datetime = 1000, j_IsBot = False\<rparr>,
      \<lparr>j_Email = ''b@x'', j_Datetime = 1500, j_IsBot = True\<rparr>,
      \<lparr>j_Email = ''c@x'', j_Datetime = 1700, j_IsBot = False\<rparr>]"

definition demoLeaves :: "Leave list" where
  "demoLeaves = [\<lparr>l_Email = ''b@x'', l_Datetime = 1600, l_IsBot = True\<rparr>]"

definition demoChannel :: MetadataChannel where
  "demoChannel =
     \<lparr>mc_ChannelId = ''c1'', mc_ChannelType = ''O'', mc_ChannelName = ''town'',
      mc_ChannelDisplayName = ''Town Square'', mc_StartTime = 1000, mc_EndTime = 2000\<rparr>"

definition demoFiles :: "FileInfo list" where
  "demoFiles =
     [\<lparr>fi_Name = ''plan.pdf'', fi_Path = ''f/plan.pdf'', fi_DeleteAt = 0\<rparr>,
      \<lparr>fi_Name = ''old.png'', fi_Path = ''f/old.png'', fi_DeleteAt = 1300\<rparr>]"

definition demoEnv :: "unit Env" where
  "demoEnv =
     \<lparr>GetForPost = (\<lambda>postId. if postId = ''p9'' then Inl ''store down'' else Inr demoFiles),
      GetUsersInChannelDuring =
        (\<lambda>startTime endTime channelId.
           if channelId = ''c9'' then Inl ''store down'' else Inr [()]),
      GetJoinsAndLeavesForChannel = (\<lambda>startTime endTime rows members. (demoJoins, demoLeaves)),
      ChannelTypeDisplayName = (\<lambda>t. ''public''),
      MetadataUpdate =
        (\<lambda>md post n.
           md\<lparr>md_Channels := (md_Channels md)(me_ChannelId post \<mapsto>
                demoChannel\<lparr>mc_ChannelId := me_ChannelId post\<rparr>)\<rparr>),
      MissingFileMessage = ''File missing'',
      PostPropsDeleteBy = ''deleteBy'',
      jsonUnmarshal =
        (\<lambda>s. if s = ''{deleteBy:u1}'' then Some [''deleteBy'' \<mapsto> ''u1'']
             else if s = ''{}'' then Some Map.empty else None),
      xmlHeader = ''<?xml?>'',
      xmlEncode = (\<lambda>root. Inr ''<FileDump/>''),
      pathJoin = (\<lambda>dir name. dir @ ''/'' @ name),
      TryWriteFileContext = (\<lambda>path content. None),
      WriteFile = (\<lambda>path content. if path = ''out/f/full.bin'' then Some ''disk full'' else None),
      Reader = (\<lambda>path. if path = ''f/old.png'' then Inl ''not found'' else Inr ''bytes''),
      rangeStillJoined = (\<lambda>m. filter (\<lambda>k. m k \<noteq> None) [''a@x'', ''b@x'', ''c@x'']),
      rangeChannels = (\<lambda>m. filter (\<lambda>k. m k \<noteq> None) [''c1'', ''c9''])\<rparr>"

definition demoLeaveEvents :: "LeaveExport list" where
  "demoLeaveEvents =
     [\<lparr>le_UserEmail = ''b@x'', le_UserType = ''bot'', le_LeaveTime = 1600,
       le_CorporateEmailID = ''b@x''\<rparr>,
      \<lparr>le_UserEmail = ''a@x'', le_UserType = ''user'', le_LeaveTime = 2000,
       le_CorporateEmailID = ''a@x''\<rparr>,
      \<lparr>le_UserEmail = ''c@x'', le_UserType = ''user'', le_LeaveTime = 2000,
       le_CorporateEmailID = ''c@x''\<rparr>]"

definition demoChannelExport :: "Element list \<Rightarrow> ChannelExport" where
  "demoChannelExport elements =
     \<lparr>ce_Perspective = ''Town Square'', ce_ChannelId = ''c1'',
      ce_RoomId = ''public - town - c1'', ce_StartTime = 1000,
      ce_JoinEvents = map joinExportOf demoJoins,
      ce_Elements = elements, ce_UploadStarts = [], ce_UploadStops = [],
      ce_LeaveEvents = demoLeaveEvents, ce_EndTime = 2000\<rparr>"

definition demoPost :: MessageExport where
  "demoPost =
     \<lparr>me_ChannelId = ''c1'', me_PostId = ''p1'', me_PostCreateAt = 1200,
      me_PostDeleteAt = None, me_PostProps = None, me_PostMessage = ''hello'',
      me_PostFileIds = [], me_UserEmail = ''a@x'', me_UserId = ''u1'',
      me_Username = ''alice'', me_IsBot = False, me_PreviewID = ''''\<rparr>"

text \<open>A deleted post with two attachments, one of them deleted.\<close>

definition demoDeletedPost :: MessageExport where
  "demoDeletedPost =
     demoPost\<lparr>me_PostId := ''p2'', me_PostCreateAt := 1250, me_PostDeleteAt := Some 1300,
       me_PostProps := Some ''{deleteBy:u1}'', me_PostMessage := ''draft'',
       me_PostFileIds := [''f1'', ''f2'']\<rparr>"

text \<open>A post whose deletion time is present and zero, with the marker in its properties.\<close>

definition demoZeroPost :: MessageExport where
  "demoZeroPost =
     demoPost\<lparr>me_PostId := ''p3'', me_PostDeleteAt := Some 0,
       me_PostProps := Some ''{deleteBy:u1}''\<rparr>"

text \<open>A post whose attachments the store cannot fetch, and a post of the channel \<open>c9\<close>.\<close>

definition demoFailingPost :: MessageExport where
  "demoFailingPost = demoPost\<lparr>me_PostId := ''p9'', me_PostFileIds := [''f9'']\<rparr>"

definition demoOtherPost :: MessageExport where
  "demoOtherPost = demoPost\<lparr>me_ChannelId := ''c9'', me_PostId := ''p4''\<rparr>"

definition demoPosts :: "MessageExport option list" where
  "demoPosts = [Some demoPost, None, Some demoDeletedPost]"

text \<open>The entries of the channel \<open>c1\<close> for \<open>demoPosts\<close>.\<close>

definition demoElements :: "Element list" where
  "demoElements =
     [Post \<lparr>pe_UserEmail = ''a@x'', pe_UserType = ''user'', pe_PostTime = 1200,
            pe_Message = ''hello'', pe_PreviewsPost = ''''\<rparr>,
      Post \<lparr>pe_UserEmail = ''a@x'', pe_UserType = ''user'', pe_PostTime = 1250,
            pe_Message = ''draft'', pe_PreviewsPost = ''''\<rparr>,
      Post \<lparr>pe_UserEmail = ''a@x'', pe_UserType = ''user'', pe_PostTime = 1300,
            pe_Message = ''delete draft'', pe_PreviewsPost = ''''\<rparr>,
      UploadStart \<lparr>fs_UserEmail = ''a@x'', fs_UploadStartTime = 1250,
                   fs_Filename = ''plan.pdf'', fs_FilePath = ''f/plan.pdf''\<rparr>,
      UploadStart \<lparr>fs_UserEmail = ''a@x'', fs_UploadStartTime = 1250,
                   fs_Filename = ''old.png'', fs_FilePath = ''f/old.png''\<rparr>,
      UploadStop \<lparr>fe_UserEmail = ''a@x'', fe_UploadStopTime = 1250,
                  fe_Filename = ''plan.pdf'', fe_FilePath = ''f/plan.pdf'',
                  fe_Status = ''Completed''\<rparr>,
      UploadStop \<lparr>fe_UserEmail = ''a@x'', fe_UploadStopTime = 1250,
                  fe_Filename = ''old.png'', fe_FilePath = ''f/old.png'',
                  fe_Status = ''Completed''\<rparr>,
      Post \<lparr>pe_UserEmail = ''a@x'', pe_UserType = ''user'', pe_PostTime = 1300,
            pe_Message = ''delete f/old.png'', pe_PreviewsPost = ''''\<rparr>]"

definition demoRoot :: RootNode where
  "demoRoot = \<lparr>rn_XMLNS = XMLNS, rn_Channels = [demoChannelExport demoElements]\<rparr>"

text \<open>
  Uploaded files for \<open>writeExport\<close>: \<open>demoFiles\<close>, whose second file cannot be read, and
  the same two files followed by a file that cannot be copied and one more file.
\<close>

definition demoFullFiles :: "FileInfo list" where
  "demoFullFiles =
     demoFiles @
     [\<lparr>fi_Name = ''full.bin'', fi_Path = ''f/full.bin'', fi_DeleteAt = 0\<rparr>,
      \<lparr>fi_Name = ''late.txt'', fi_Path = ''f/late.txt'', fi_DeleteAt = 0\<rparr>]"

section \<open>Verification\<close>

subsection \<open>The sort\<close>

lemma leaveLess_key: "leaveLess a b \<longleftrightarrow> leaveKey a < leaveKey b"
  by (auto simp: leaveLess_def leaveKey_def)


lemma set_insertBack: "set (insertBack lt x r) = insert x (set r)"
  by (induction r) auto

lemma sorted_insertBack:
  fixes f :: "'a \<Rightarrow> 'k::linorder"
  assumes lt: "\<And>a b. lt a b \<longleftrightarrow> f a < f b"
  shows "sorted_wrt (\<lambda>a b. f b \<le> f a) r \<Longrightarrow> sorted_wrt (\<lambda>a b. f b \<le> f a) (insertBack lt x r)"
  by (induction r) (auto simp: lt set_insertBack)



lemma sorted_foldl_insertBack:
  fixes f :: "'a \<Rightarrow> 'k::linorder"
  assumes lt: "\<And>a b. lt a b \<longleftrightarrow> f a < f b"
  shows "sorted_wrt (\<lambda>a b. f b \<le> f a) r \<Longrightarrow>
         sorted_wrt (\<lambda>a b. f b \<le> f a) (foldl (\<lambda>front x. insertBack lt x front) r xs)"
  by (induction xs arbitrary: r) (auto simp: sorted_insertBack [where f = f and lt = lt, OF lt])



lemma sorted_sortSlice:
  fixes f :: "'a \<Rightarrow> 'k::linorder"
  assumes lt: "\<And>a b. lt a b \<longleftrightarrow> f a < f b"
  shows "sorted (map f (sortSlice lt xs))"
  using sorted_foldl_insertBack [where f = f and lt = lt, OF lt, where r = "[]" and xs = xs]
  by (simp add: sortSlice_def sorted_map sorted_wrt_rev)






subsection \<open>The loops of buildChannelExport\<close>


lemma joinsLoop_snd: "snd (joinsLoop joins (acc, m)) = snd (joinsLoop joins ([], m))"
proof (induction joins arbitrary: acc m)
  case Nil
  show ?case by simp
next
  case (Cons j js)
  show ?case
    by (simp add: Let_def) (metis Cons.IH)
qed



lemma leavesLoop_snd: "snd (leavesLoop leaves (acc, m)) = snd (leavesLoop leaves ([], m))"
proof (induction leaves arbitrary: acc m)
  case Nil
  show ?case by simp
next
  case (Cons l ls)
  show ?case
    by simp (metis Cons.IH)
qed






lemma buildChannelExport_Inl:
  assumes "GetUsersInChannelDuring env (mc_StartTime channel) (mc_EndTime channel)
             (mc_ChannelId channel) = Inl err"
  shows "buildChannelExport env channel members elements =
     Inl (AppError ''buildChannelExport'' ''ent.get_users_in_channel_during'' 500 err)"
  using assms by (simp add: buildChannelExport_def)

lemma buildChannelExport_fields:
  assumes "buildChannelExport env channel members elements = Inr ce"
  shows "ce_ChannelId ce = mc_ChannelId channel" and "ce_Elements ce = elements"
    and "ce_UploadStarts ce = []" and "ce_UploadStops ce = []"
  using assms
  by (auto simp: buildChannelExport_def Let_def split: sum.splits prod.splits)
















subsection \<open>The sample channel\<close>


lemma demo_buildChannelExport:
  "buildChannelExport demoEnv demoChannel members elements = Inr (demoChannelExport elements)"
  by (simp add: buildChannelExport_def demoEnv_def demoChannel_def demoChannelExport_def
      demoJoins_def demoLeaves_def demoLeaveEvents_def Let_def lookupStillJoined_def
      joinExportOf_def leaveExportOf_def sortSlice_def leaveLess_def)


subsection \<open>The reconstruction of the membership\<close>



text \<open>
  C2. In every channel export that \<open>buildChannelExport\<close> returns, the leave events are in
  ascending order of leave time and, at equal leave times, of user email: of two leave
  events, the one that comes first has the earlier time, or the same time and an email
  that is not greater.
\<close>

theorem leave_events_sorted:
  assumes "buildChannelExport env channel members elements = Inr ce"
  shows "\<forall>i j. i < j \<and> j < length (ce_LeaveEvents ce) \<longrightarrow>
           le_LeaveTime (ce_LeaveEvents ce ! i) < le_LeaveTime (ce_LeaveEvents ce ! j) \<or>
           (le_LeaveTime (ce_LeaveEvents ce ! i) = le_LeaveTime (ce_LeaveEvents ce ! j) \<and>
            le_UserEmail (ce_LeaveEvents ce ! i) \<le> le_UserEmail (ce_LeaveEvents ce ! j))"
proof -
  obtain xs where xs: "ce_LeaveEvents ce = sortSlice leaveLess xs"
    using assms
    by (auto simp: buildChannelExport_def Let_def split: sum.splits prod.splits)
  have "sorted (map leaveKey (ce_LeaveEvents ce))"
    unfolding xs by (rule sorted_sortSlice [where f = leaveKey and lt = leaveLess, OF leaveLess_key])
  then have key: "leaveKey (ce_LeaveEvents ce ! i) \<le> leaveKey (ce_LeaveEvents ce ! j)"
    if "i < j" "j < length (ce_LeaveEvents ce)" for i j
    using that by (simp add: sorted_map sorted_wrt_iff_nth_less)
  show ?thesis
  proof (intro allI impI)
    fix i j
    assume "i < j \<and> j < length (ce_LeaveEvents ce)"
    then have "leaveKey (ce_LeaveEvents ce ! i) \<le> leaveKey (ce_LeaveEvents ce ! j)"
      using key by blast
    then show "le_LeaveTime (ce_LeaveEvents ce ! i) < le_LeaveTime (ce_LeaveEvents ce ! j) \<or>
           (le_LeaveTime (ce_LeaveEvents ce ! i) = le_LeaveTime (ce_LeaveEvents ce ! j) \<and>
            le_UserEmail (ce_LeaveEvents ce ! i) \<le> le_UserEmail (ce_LeaveEvents ce ! j))"
      unfolding leaveKey_def less_eq_prod_def by auto
  qed
qed

theorem leave_events_sorted_witness:
  "buildChannelExport demoEnv demoChannel Map.empty [] = Inr (demoChannelExport []) \<and>
   ce_LeaveEvents (demoChannelExport []) = demoLeaveEvents \<and>
   length demoLeaveEvents = 3 \<and>
   (le_LeaveTime (demoLeaveEvents ! 0) < le_LeaveTime (demoLeaveEvents ! 1) \<or>
    le_LeaveTime (demoLeaveEvents ! 0) = le_LeaveTime (demoLeaveEvents ! 1) \<and>
    le_UserEmail (demoLeaveEvents ! 0) \<le> le_UserEmail (demoLeaveEvents ! 1)) \<and>
   (le_LeaveTime (demoLeaveEvents ! 1) < le_LeaveTime (demoLeaveEvents ! 2) \<or>
    le_LeaveTime (demoLeaveEvents ! 1) = le_LeaveTime (demoLeaveEvents ! 2) \<and>
    le_UserEmail (demoLeaveEvents ! 1) \<le> le_UserEmail (demoLeaveEvents ! 2)) \<and>
   (le_LeaveTime (demoLeaveEvents ! 0) < le_LeaveTime (demoLeaveEvents ! 2) \<or>
    le_LeaveTime (demoLeaveEvents ! 0) = le_LeaveTime (demoLeaveEvents ! 2) \<and>
    le_UserEmail (demoLeaveEvents ! 0) \<le> le_UserEmail (demoLeaveEvents ! 2))"
proof -
  have h: "buildChannelExport demoEnv demoChannel Map.empty [] = Inr (demoChannelExport [])"
    by (rule demo_buildChannelExport)
  have l: "ce_LeaveEvents (demoChannelExport []) = demoLeaveEvents"
    by (simp add: demoChannelExport_def)
  have n: "length demoLeaveEvents = 3"
    by (simp add: demoLeaveEvents_def)
  note s = leave_events_sorted [OF h, unfolded l n, rule_format]
  have "(0::nat) < 1 \<and> (1::nat) < 3" "(1::nat) < 2 \<and> (2::nat) < 3" "(0::nat) < 2 \<and> (2::nat) < 3"
    by simp_all
  from h l n this [THEN s] show ?thesis by blast
qed



subsection \<open>The entries of a post\<close>

lemma fileInfosLoop_eq:
  "fileInfosLoop post fileInfos (starts, stops, files, deletes) =
     (starts @
        map (\<lambda>fi. UploadStart \<lparr>fs_UserEmail = me_UserEmail post,
                                fs_UploadStartTime = me_PostCreateAt post,
                                fs_Filename = fi_Name fi, fs_FilePath = fi_Path fi\<rparr>) fileInfos,
      stops @
        map (\<lambda>fi. UploadStop \<lparr>fe_UserEmail = me_UserEmail post,
                               fe_UploadStopTime = me_PostCreateAt post,
                               fe_Filename = fi_Name fi, fe_FilePath = fi_Path fi,
                               fe_Status = ''Completed''\<rparr>) fileInfos,
      files @ fileInfos,
      deletes @
        map (\<lambda>fi. Post (postToExportEntry post (the (me_PostDeleteAt post))
                          (''delete '' @ fi_Path fi)))
          (filter (\<lambda>fi. fi_DeleteAt fi > 0 \<and> me_PostDeleteAt post \<noteq> None) fileInfos))"
  by (induction fileInfos arbitrary: starts stops files deletes) auto

lemma demo_attachments:
  "postToAttachmentsEntries demoEnv demoPost = Inr ([], [], [], [])"
  "postToAttachmentsEntries demoEnv demoDeletedPost =
     Inr ([demoElements ! 3, demoElements ! 4], [demoElements ! 5, demoElements ! 6],
          demoFiles, [demoElements ! 7])"
  by (simp_all add: postToAttachmentsEntries_def demoPost_def demoDeletedPost_def demoEnv_def
      demoFiles_def demoElements_def postToExportEntry_def)

lemma demo_postEntries:
  "postEntries demoEnv demoPost = [demoElements ! 0]"
  "postEntries demoEnv demoDeletedPost = [demoElements ! 1, demoElements ! 2]"
  by (simp_all add: postEntries_def demoPost_def demoDeletedPost_def demoEnv_def
      demoElements_def postToExportEntry_def)

lemma demo_elements_nth:
  "[demoElements ! 0, demoElements ! Suc 0, demoElements ! 2, demoElements ! 3, demoElements ! 4,
    demoElements ! 5, demoElements ! 6, demoElements ! 7] = demoElements"
  by (simp add: demoElements_def)

text \<open>
  C4, as amended. A post whose deletion time is present and greater than zero and whose
  properties decode to a JSON object holding the key \<open>PostPropsDeleteBy\<close> yields the
  message and, after it, one entry at the deletion time whose text is \<open>delete\<close>, a blank
  and the message. A post whose deletion time is absent or not greater than zero, or whose
  properties are absent, do not decode, or decode to an object without the key, yields
  the message alone. \<open>postEntries\<close> has no error result. These are the entries for the
  post itself; the entries for its attachments are the subject of C5 and C6.
\<close>

theorem post_entries_amended:
  "(me_PostDeleteAt post = Some t \<and> 0 < t \<and> me_PostProps post = Some blob \<and>
    jsonUnmarshal env blob = Some props \<and> props (PostPropsDeleteBy env) \<noteq> None \<longrightarrow>
      postEntries env post =
        [Post (postToExportEntry post (me_PostCreateAt post) (me_PostMessage post)),
         Post \<lparr>pe_UserEmail = me_UserEmail post,
               pe_UserType = (if me_IsBot post then ''bot'' else ''user''),
               pe_PostTime = t,
               pe_Message = ''delete '' @ me_PostMessage post,
               pe_PreviewsPost = me_PreviewID post\<rparr>]) \<and>
   (me_PostDeleteAt post = None \<or> (\<exists>t'. me_PostDeleteAt post = Some t' \<and> t' \<le> 0) \<or>
    me_PostProps post = None \<or>
    (\<exists>blob'. me_PostProps post = Some blob' \<and>
       (jsonUnmarshal env blob' = None \<or>
        (\<exists>props'. jsonUnmarshal env blob' = Some props' \<and>
           props' (PostPropsDeleteBy env) = None))) \<longrightarrow>
      postEntries env post =
        [Post (postToExportEntry post (me_PostCreateAt post) (me_PostMessage post))])"
  by (auto simp: postEntries_def postToExportEntry_def split: option.splits)

text \<open>
  The claim C4 as it is written fails on \<open>demoZeroPost\<close>: the post carries a deletion
  time, its properties decode and hold the key, and the message is its only entry.
\<close>

theorem post_entries_counterexample:
  "me_PostDeleteAt demoZeroPost = Some 0 \<and>
   me_PostProps demoZeroPost = Some ''{deleteBy:u1}'' \<and>
   jsonUnmarshal demoEnv ''{deleteBy:u1}'' = Some [''deleteBy'' \<mapsto> ''u1''] \<and>
   [''deleteBy'' \<mapsto> ''u1''] (PostPropsDeleteBy demoEnv) = Some ''u1'' \<and>
   postEntries demoEnv demoZeroPost =
     [Post \<lparr>pe_UserEmail = ''a@x'', pe_UserType = ''user'', pe_PostTime = 1200,
            pe_Message = ''hello'', pe_PreviewsPost = ''''\<rparr>]"
  by (simp add: demoZeroPost_def demoPost_def demoEnv_def postEntries_def postToExportEntry_def)

theorem post_entries_amended_witness:
  "me_PostDeleteAt demoDeletedPost = Some 1300 \<and> (0::int) < 1300 \<and>
   me_PostProps demoDeletedPost = Some ''{deleteBy:u1}'' \<and>
   jsonUnmarshal demoEnv ''{deleteBy:u1}'' = Some [''deleteBy'' \<mapsto> ''u1''] \<and>
   [''deleteBy'' \<mapsto> ''u1''] (PostPropsDeleteBy demoEnv) \<noteq> None \<and>
   postEntries demoEnv demoDeletedPost =
     [Post \<lparr>pe_UserEmail = ''a@x'', pe_UserType = ''user'', pe_PostTime = 1250,
            pe_Message = ''draft'', pe_PreviewsPost = ''''\<rparr>,
      Post \<lparr>pe_UserEmail = ''a@x'', pe_UserType = ''user'', pe_PostTime = 1300,
            pe_Message = ''delete draft'', pe_PreviewsPost = ''''\<rparr>] \<and>
   me_PostDeleteAt demoPost = None \<and>
   postEntries demoEnv demoPost =
     [Post \<lparr>pe_UserEmail = ''a@x'', pe_UserType = ''user'', pe_PostTime = 1200,
            pe_Message = ''hello'', pe_PreviewsPost = ''''\<rparr>]"
proof -
  have f: "me_PostDeleteAt demoDeletedPost = Some 1300"
    "me_PostProps demoDeletedPost = Some ''{deleteBy:u1}''"
    "me_UserEmail demoDeletedPost = ''a@x''" "me_IsBot demoDeletedPost = False"
    "me_PreviewID demoDeletedPost = ''''" "me_PostCreateAt demoDeletedPost = 1250"
    "me_PostMessage demoDeletedPost = ''draft''"
    by (simp_all add: demoDeletedPost_def demoPost_def)
  have g: "me_PostDeleteAt demoPost = None" "me_UserEmail demoPost = ''a@x''"
    "me_IsBot demoPost = False" "me_PreviewID demoPost = ''''" "me_PostCreateAt demoPost = 1200"
    "me_PostMessage demoPost = ''hello''"
    by (simp_all add: demoPost_def)
  have j: "jsonUnmarshal demoEnv ''{deleteBy:u1}'' = Some [''deleteBy'' \<mapsto> ''u1'']"
    "PostPropsDeleteBy demoEnv = ''deleteBy''"
    by (simp_all add: demoEnv_def)
  from f g j
    post_entries_amended [of demoDeletedPost 1300 "''{deleteBy:u1}''" demoEnv
      "[''deleteBy'' \<mapsto> ''u1'']"]
    post_entries_amended [of demoPost 0 "[]" demoEnv Map.empty]
  show ?thesis
    by (simp add: postToExportEntry_def)
qed

text \<open>
  C5. A post without file ids yields four empty lists and no error. A post with file ids
  whose attachments the store returns yields, for each attachment in turn, one start
  entry and one stop entry, both at the creation time of the post, the stop entry with
  the status \<open>Completed\<close>; the uploaded files are the attachments returned.
\<close>

theorem attachment_entries:
  "(me_PostFileIds post = [] \<longrightarrow> postToAttachmentsEntries env post = Inr ([], [], [], [])) \<and>
   (me_PostFileIds post \<noteq> [] \<and> GetForPost env (me_PostId post) = Inr fileInfos \<longrightarrow>
      (\<exists>deletes. postToAttachmentsEntries env post =
         Inr (map (\<lambda>fi. UploadStart \<lparr>fs_UserEmail = me_UserEmail post,
                                      fs_UploadStartTime = me_PostCreateAt post,
                                      fs_Filename = fi_Name fi,
                                      fs_FilePath = fi_Path fi\<rparr>) fileInfos,
              map (\<lambda>fi. UploadStop \<lparr>fe_UserEmail = me_UserEmail post,
                                     fe_UploadStopTime = me_PostCreateAt post,
                                     fe_Filename = fi_Name fi,
                                     fe_FilePath = fi_Path fi,
                                     fe_Status = ''Completed''\<rparr>) fileInfos,
              fileInfos, deletes)))"
  by (simp add: postToAttachmentsEntries_def fileInfosLoop_eq)

theorem attachment_entries_witness:
  "me_PostFileIds demoPost = [] \<and>
   postToAttachmentsEntries demoEnv demoPost = Inr ([], [], [], []) \<and>
   me_PostFileIds demoDeletedPost \<noteq> [] \<and>
   GetForPost demoEnv (me_PostId demoDeletedPost) = Inr demoFiles \<and>
   (\<exists>deletes. postToAttachmentsEntries demoEnv demoDeletedPost =
      Inr ([UploadStart \<lparr>fs_UserEmail = ''a@x'', fs_UploadStartTime = 1250,
                         fs_Filename = ''plan.pdf'', fs_FilePath = ''f/plan.pdf''\<rparr>,
            UploadStart \<lparr>fs_UserEmail = ''a@x'', fs_UploadStartTime = 1250,
                         fs_Filename = ''old.png'', fs_FilePath = ''f/old.png''\<rparr>],
           [UploadStop \<lparr>fe_UserEmail = ''a@x'', fe_UploadStopTime = 1250,
                        fe_Filename = ''plan.pdf'', fe_FilePath = ''f/plan.pdf'',
                        fe_Status = ''Completed''\<rparr>,
            UploadStop \<lparr>fe_UserEmail = ''a@x'', fe_UploadStopTime = 1250,
                        fe_Filename = ''old.png'', fe_FilePath = ''f/old.png'',
                        fe_Status = ''Completed''\<rparr>],
           demoFiles, deletes))"
proof -
  have a: "me_PostFileIds demoPost = []"
    by (simp add: demoPost_def)
  have b: "me_PostFileIds demoDeletedPost \<noteq> []"
    by (simp add: demoDeletedPost_def)
  have c: "GetForPost demoEnv (me_PostId demoDeletedPost) = Inr demoFiles"
    by (simp add: demoEnv_def demoDeletedPost_def demoPost_def)
  have f: "me_UserEmail demoDeletedPost = ''a@x''" "me_PostCreateAt demoDeletedPost = 1250"
    by (simp_all add: demoDeletedPost_def demoPost_def)
  from a b c attachment_entries [of demoPost demoEnv demoFiles]
    attachment_entries [of demoDeletedPost demoEnv demoFiles]
  show ?thesis
    by (simp add: f demoFiles_def)
qed

text \<open>
  C6. For a post with file ids whose attachments the store returns, the delete messages
  are, in the order of the attachments, one message \<open>delete <path>\<close> at the deletion time
  of the post for exactly those attachments whose own deletion time is positive, provided
  the post has a deletion time; a post without one yields no delete message.
\<close>

theorem attachment_delete_messages:
  assumes "me_PostFileIds post \<noteq> []"
    and "GetForPost env (me_PostId post) = Inr fileInfos"
  shows "\<exists>starts stops files.
           postToAttachmentsEntries env post =
             Inr (starts, stops, files,
                  map (\<lambda>fi. Post \<lparr>pe_UserEmail = me_UserEmail post,
                                   pe_UserType = (if me_IsBot post then ''bot'' else ''user''),
                                   pe_PostTime = the (me_PostDeleteAt post),
                                   pe_Message = ''delete '' @ fi_Path fi,
                                   pe_PreviewsPost = me_PreviewID post\<rparr>)
                    (filter (\<lambda>fi. fi_DeleteAt fi > 0 \<and> me_PostDeleteAt post \<noteq> None)
                       fileInfos))"
  using assms
  by (simp add: postToAttachmentsEntries_def fileInfosLoop_eq postToExportEntry_def)

theorem attachment_delete_messages_witness:
  "me_PostFileIds demoDeletedPost \<noteq> [] \<and>
   GetForPost demoEnv (me_PostId demoDeletedPost) = Inr demoFiles \<and>
   (\<exists>starts stops files.
      postToAttachmentsEntries demoEnv demoDeletedPost =
        Inr (starts, stops, files,
             [Post \<lparr>pe_UserEmail = ''a@x'', pe_UserType = ''user'', pe_PostTime = 1300,
                    pe_Message = ''delete f/old.png'', pe_PreviewsPost = ''''\<rparr>]))"
proof -
  have b: "me_PostFileIds demoDeletedPost \<noteq> []"
    by (simp add: demoDeletedPost_def)
  have c: "GetForPost demoEnv (me_PostId demoDeletedPost) = Inr demoFiles"
    by (simp add: demoEnv_def demoDeletedPost_def demoPost_def)
  have f: "me_UserEmail demoDeletedPost = ''a@x''" "me_PostDeleteAt demoDeletedPost = Some 1300"
    "me_IsBot demoDeletedPost = False" "me_PreviewID demoDeletedPost = ''''"
    by (simp_all add: demoDeletedPost_def demoPost_def)
  from b c attachment_delete_messages [OF b c]
  show ?thesis
    by (simp add: f demoFiles_def)
qed

subsection \<open>The loops of ActianceExport\<close>

lemma entriesOfPost_Inr:
  "postToAttachmentsEntries env post = Inr (starts, stops, files, deletes) \<Longrightarrow>
   entriesOfPost env post = postEntries env post @ starts @ stops @ deletes"
  by (simp add: entriesOfPost_def)

lemma postsLoop_elements:
  "postsLoop env posts st = Inr st' \<Longrightarrow>
   elementsByChannel st' c =
     elementsByChannel st c @
     concat (map (entriesOfPost env)
               (filter (\<lambda>p. me_ChannelId p = c) (presentPosts posts)))"
proof (induction env posts st rule: postsLoop.induct)
  case (1 env st)
  then show ?case by simp
next
  case (2 env posts st)
  then show ?case by simp
next
  case (3 env post posts st)
  from "3.prems" obtain starts stops files deletes where
    r: "postToAttachmentsEntries env post = Inr (starts, stops, files, deletes)"
    by (auto split: sum.splits)
  let ?st = "\<lparr>elementsByChannel =
               (elementsByChannel st)
                 (me_ChannelId post :=
                    elementsByChannel st (me_ChannelId post) @ postEntries env post @
                    starts @ stops @ deletes),
             allUploadedFiles = allUploadedFiles st @ files,
             metadata = MetadataUpdate env (metadata st) post (int (length files)),
             membersByChannel =
               (membersByChannel st)
                 (me_ChannelId post :=
                    (membersByChannel st (me_ChannelId post))
                      (me_UserId post \<mapsto>
                         \<lparr>cm_Email = me_UserEmail post, cm_UserId = me_UserId post,
                          cm_IsBot = me_IsBot post, cm_Username = me_Username post\<rparr>))\<rparr>"
  from "3.prems" r have "postsLoop env posts ?st = Inr st'" by simp
  from "3.IH" [OF r refl refl refl this]
  show ?case
    by (simp add: entriesOfPost_Inr [OF r])
qed

lemma postsLoop_Inl:
  assumes "Some post \<in> set posts" and "postToAttachmentsEntries env post = Inl err"
  shows "\<exists>before failing after err'.
           posts = before @ Some failing # after \<and>
           (\<forall>p. Some p \<in> set before \<longrightarrow> (\<exists>r. postToAttachmentsEntries env p = Inr r)) \<and>
           postToAttachmentsEntries env failing = Inl err' \<and>
           postsLoop env posts st = Inl err'"
  using assms
proof (induction env posts st rule: postsLoop.induct)
  case (1 env st)
  then show ?case by simp
next
  case (2 env posts st)
  then have "Some post \<in> set posts" by simp
  from "2.IH" [OF this "2.prems"(2)] obtain before failing after err' where
    h: "posts = before @ Some failing # after"
      "\<forall>p. Some p \<in> set before \<longrightarrow> (\<exists>r. postToAttachmentsEntries env p = Inr r)"
      "postToAttachmentsEntries env failing = Inl err'"
      "postsLoop env posts st = Inl err'"
    by blast
  have "None # posts = (None # before) @ Some failing # after"
    using h(1) by simp
  moreover have "\<forall>p. Some p \<in> set (None # before) \<longrightarrow>
      (\<exists>r. postToAttachmentsEntries env p = Inr r)"
    using h(2) by simp
  moreover have "postsLoop env (None # posts) st = Inl err'"
    using h(4) by simp
  ultimately show ?case using h(3) by blast
next
  case (3 env p posts st)
  show ?case
  proof (cases "postToAttachmentsEntries env p")
    case (Inl e)
    have "Some p # posts = [] @ Some p # posts" by simp
    moreover have "postsLoop env (Some p # posts) st = Inl e"
      using Inl by simp
    ultimately show ?thesis using Inl
      by (metis empty_iff list.set(1))
  next
    case (Inr r)
    obtain starts stops files deletes where r: "r = (starts, stops, files, deletes)"
      by (cases r) auto
    from Inr "3.prems" have "Some post \<in> set posts" by auto
    note IH = "3.IH" [OF Inr [unfolded r] refl refl refl this "3.prems"(2)]
    then obtain before failing after err' where
      h: "posts = before @ Some failing # after"
        "\<forall>q. Some q \<in> set before \<longrightarrow> (\<exists>r. postToAttachmentsEntries env q = Inr r)"
        "postToAttachmentsEntries env failing = Inl err'"
        "postsLoop env (Some p # posts) st = Inl err'"
      using Inr r by auto
    have "Some p # posts = (Some p # before) @ Some failing # after"
      using h(1) by simp
    moreover have "\<forall>q. Some q \<in> set (Some p # before) \<longrightarrow>
        (\<exists>r. postToAttachmentsEntries env q = Inr r)"
      using h(2) Inr r by auto
    ultimately show ?thesis using h(3,4) by blast
  qed
qed

lemma postsLoop_Inr_all:
  assumes "postsLoop env posts st = Inr st'" and "Some p \<in> set posts"
  shows "\<exists>starts stops files deletes.
           postToAttachmentsEntries env p = Inr (starts, stops, files, deletes)"
proof (cases "postToAttachmentsEntries env p")
  case (Inl err)
  from postsLoop_Inl [OF assms(2) Inl, of st] assms(1) show ?thesis by auto
next
  case (Inr r)
  then show ?thesis by (cases r) auto
qed

lemma channelsLoop_Inr:
  "channelsLoop env channels st acc = Inr ces \<Longrightarrow>
   \<exists>new. ces = acc @ new \<and>
     list_all2 (\<lambda>channel ce.
        buildChannelExport env channel (membersByChannel st (mc_ChannelId channel))
          (elementsByChannel st (mc_ChannelId channel)) = Inr ce) channels new"
proof (induction channels arbitrary: acc)
  case Nil
  then show ?case by simp
next
  case (Cons channel channels)
  from Cons.prems obtain ce where
    ce: "buildChannelExport env channel (membersByChannel st (mc_ChannelId channel))
          (elementsByChannel st (mc_ChannelId channel)) = Inr ce"
    and rest: "channelsLoop env channels st (acc @ [ce]) = Inr ces"
    by (auto split: sum.splits)
  from Cons.IH [OF rest] obtain new where
    "ces = (acc @ [ce]) @ new"
    "list_all2 (\<lambda>channel ce.
        buildChannelExport env channel (membersByChannel st (mc_ChannelId channel))
          (elementsByChannel st (mc_ChannelId channel)) = Inr ce) channels new"
    by blast
  with ce show ?case
    by (intro exI [of _ "ce # new"]) simp
qed

lemma channelsLoop_Inl:
  assumes "channel \<in> set channels"
    and "buildChannelExport env channel (membersByChannel st (mc_ChannelId channel))
          (elementsByChannel st (mc_ChannelId channel)) = Inl err"
  shows "\<exists>before failing after err'.
           channels = before @ failing # after \<and>
           (\<forall>c\<in>set before. \<exists>ce.
              buildChannelExport env c (membersByChannel st (mc_ChannelId c))
                (elementsByChannel st (mc_ChannelId c)) = Inr ce) \<and>
           buildChannelExport env failing (membersByChannel st (mc_ChannelId failing))
             (elementsByChannel st (mc_ChannelId failing)) = Inl err' \<and>
           channelsLoop env channels st acc = Inl err'"
  using assms
proof (induction channels arbitrary: acc)
  case Nil
  then show ?case by simp
next
  case (Cons c channels)
  show ?case
  proof (cases "buildChannelExport env c (membersByChannel st (mc_ChannelId c))
                (elementsByChannel st (mc_ChannelId c))")
    case (Inl e)
    have "c # channels = [] @ c # channels" by simp
    moreover have "channelsLoop env (c # channels) st acc = Inl e"
      using Inl by simp
    ultimately show ?thesis using Inl
      by (metis empty_iff list.set(1))
  next
    case (Inr ce)
    with Cons.prems have "channel \<in> set channels" by auto
    from Cons.IH [OF this Cons.prems(2), of "acc @ [ce]"] obtain before failing after err' where
      h: "channels = before @ failing # after"
        "\<forall>c\<in>set before. \<exists>ce.
              buildChannelExport env c (membersByChannel st (mc_ChannelId c))
                (elementsByChannel st (mc_ChannelId c)) = Inr ce"
        "buildChannelExport env failing (membersByChannel st (mc_ChannelId failing))
             (elementsByChannel st (mc_ChannelId failing)) = Inl err'"
        "channelsLoop env channels st (acc @ [ce]) = Inl err'"
      by blast
    have "c # channels = (c # before) @ failing # after"
      using h(1) by simp
    moreover have "\<forall>c'\<in>set (c # before). \<exists>ce.
              buildChannelExport env c' (membersByChannel st (mc_ChannelId c'))
                (elementsByChannel st (mc_ChannelId c')) = Inr ce"
      using h(2) Inr by auto
    moreover have "channelsLoop env (c # channels) st acc = Inl err'"
      using h(4) Inr by simp
    ultimately show ?thesis using h(3) by blast
  qed
qed

lemma demo_postsLoop:
  "postsLoop demoEnv demoPosts initialCollected =
     Inr \<lparr>elementsByChannel = (\<lambda>c. [])(''c1'' := demoElements),
          allUploadedFiles = demoFiles,
          metadata =
            \<lparr>md_Channels = [''c1'' \<mapsto> demoChannel], md_MessagesCount = 0,
             md_AttachmentsCount = 0, md_StartTime = 0, md_EndTime = 0\<rparr>,
          membersByChannel =
            (\<lambda>c. Map.empty)
              (''c1'' := [''u1'' \<mapsto> \<lparr>cm_Email = ''a@x'', cm_UserId = ''u1'', cm_IsBot = False,
                                      cm_Username = ''alice''\<rparr>])\<rparr>"
proof -
  have c: "me_ChannelId demoPost = ''c1''" "me_ChannelId demoDeletedPost = ''c1''"
    "me_UserId demoPost = ''u1''" "me_UserId demoDeletedPost = ''u1''"
    "me_UserEmail demoPost = ''a@x''" "me_UserEmail demoDeletedPost = ''a@x''"
    "me_IsBot demoPost = False" "me_IsBot demoDeletedPost = False"
    "me_Username demoPost = ''alice''" "me_Username demoDeletedPost = ''alice''"
    by (simp_all add: demoPost_def demoDeletedPost_def)
  have u: "MetadataUpdate demoEnv md demoPost n =
             md\<lparr>md_Channels := (md_Channels md)(''c1'' \<mapsto> demoChannel)\<rparr>"
    "MetadataUpdate demoEnv md demoDeletedPost n =
             md\<lparr>md_Channels := (md_Channels md)(''c1'' \<mapsto> demoChannel)\<rparr>" for md n
    by (simp_all add: demoEnv_def demoPost_def demoDeletedPost_def demoChannel_def)
  show ?thesis
    by (simp add: demoPosts_def initialCollected_def demo_attachments demo_postEntries c u
        demo_elements_nth)
qed

lemma demo_exportRoot: "exportRoot demoEnv demoPosts = Inr (demoRoot, demoFiles)"
proof -
  have r: "rangedChannels demoEnv
             \<lparr>md_Channels = [''c1'' \<mapsto> demoChannel], md_MessagesCount = 0,
              md_AttachmentsCount = 0, md_StartTime = 0, md_EndTime = 0\<rparr> = [demoChannel]"
    by (simp add: rangedChannels_def demoEnv_def List.map_filter_simps)
  have i: "mc_ChannelId demoChannel = ''c1''"
    by (simp add: demoChannel_def)
  show ?thesis
    by (simp add: exportRoot_def demo_postsLoop r i demo_buildChannelExport demoRoot_def)
qed

text \<open>
  C3. In every channel of the root node that \<open>ActianceExport\<close> hands to \<open>writeExport\<close>, the
  events come in this order: the join events, then the entries of the posts of that
  channel, post after post in the order of the input and within a post in the order in
  which the loop appends them (the message, its deletion, the start entries, the stop
  entries, the delete messages of the attachments), then the leave events.
\<close>

theorem transcript_event_order:
  assumes "exportRoot env posts = Inr (export, uploadedFiles)"
  shows "(\<forall>ce\<in>set (rn_Channels export).
            channelEvents ce =
              map JoinEvent (ce_JoinEvents ce) @
              map ElementEvent
                (concat (map (entriesOfPost env)
                   (filter (\<lambda>p. me_ChannelId p = ce_ChannelId ce) (presentPosts posts)))) @
              map LeaveEvent (ce_LeaveEvents ce)) \<and>
         (\<forall>p. Some p \<in> set posts \<longrightarrow>
            (\<exists>starts stops files deletes.
               postToAttachmentsEntries env p = Inr (starts, stops, files, deletes) \<and>
               entriesOfPost env p = postEntries env p @ starts @ stops @ deletes))"
proof -
  from assms obtain st where
    st: "postsLoop env posts initialCollected = Inr st"
    and chans: "channelsLoop env (rangedChannels env (metadata st)) st [] =
                  Inr (rn_Channels export)"
    by (auto simp: exportRoot_def split: sum.splits)
  from channelsLoop_Inr [OF chans]
  have all2: "list_all2 (\<lambda>channel ce.
        buildChannelExport env channel (membersByChannel st (mc_ChannelId channel))
          (elementsByChannel st (mc_ChannelId channel)) = Inr ce)
        (rangedChannels env (metadata st)) (rn_Channels export)"
    by simp
  have "channelEvents ce =
              map JoinEvent (ce_JoinEvents ce) @
              map ElementEvent
                (concat (map (entriesOfPost env)
                   (filter (\<lambda>p. me_ChannelId p = ce_ChannelId ce) (presentPosts posts)))) @
              map LeaveEvent (ce_LeaveEvents ce)"
    if "ce \<in> set (rn_Channels export)" for ce
  proof -
    from that all2 obtain channel where
      b: "buildChannelExport env channel (membersByChannel st (mc_ChannelId channel))
          (elementsByChannel st (mc_ChannelId channel)) = Inr ce"
      by (auto simp: in_set_conv_nth list_all2_conv_all_nth)
    from buildChannelExport_fields [OF b] postsLoop_elements [OF st, of "mc_ChannelId channel"]
    show ?thesis
      by (simp add: channelEvents_def initialCollected_def)
  qed
  moreover have "\<exists>starts stops files deletes.
               postToAttachmentsEntries env p = Inr (starts, stops, files, deletes) \<and>
               entriesOfPost env p = postEntries env p @ starts @ stops @ deletes"
    if "Some p \<in> set posts" for p
    using postsLoop_Inr_all [OF st that] by (auto simp: entriesOfPost_def)
  ultimately show ?thesis by blast
qed

theorem transcript_event_order_witness:
  "exportRoot demoEnv demoPosts = Inr (demoRoot, demoFiles) \<and>
   rn_Channels demoRoot = [demoChannelExport demoElements] \<and>
   presentPosts demoPosts = [demoPost, demoDeletedPost] \<and>
   channelEvents (demoChannelExport demoElements) =
     map JoinEvent (map joinExportOf demoJoins) @
     map ElementEvent
       (concat (map (entriesOfPost demoEnv) [demoPost, demoDeletedPost])) @
     map LeaveEvent demoLeaveEvents \<and>
   concat (map (entriesOfPost demoEnv) [demoPost, demoDeletedPost]) = demoElements"
proof -
  have h: "exportRoot demoEnv demoPosts = Inr (demoRoot, demoFiles)"
    by (rule demo_exportRoot)
  have c: "rn_Channels demoRoot = [demoChannelExport demoElements]"
    by (simp add: demoRoot_def)
  have p: "presentPosts demoPosts = [demoPost, demoDeletedPost]"
    by (simp add: demoPosts_def)
  have i: "me_ChannelId demoPost = ''c1''" "me_ChannelId demoDeletedPost = ''c1''"
    "ce_ChannelId (demoChannelExport demoElements) = ''c1''"
    "ce_JoinEvents (demoChannelExport demoElements) = map joinExportOf demoJoins"
    "ce_LeaveEvents (demoChannelExport demoElements) = demoLeaveEvents"
    by (simp_all add: demoPost_def demoDeletedPost_def demoChannelExport_def)
  have e: "concat (map (entriesOfPost demoEnv) [demoPost, demoDeletedPost]) = demoElements"
    by (simp add: entriesOfPost_def demo_attachments demo_postEntries demo_elements_nth)
  from transcript_event_order [OF h]
  have "channelEvents (demoChannelExport demoElements) =
     map JoinEvent (map joinExportOf demoJoins) @
     map ElementEvent
       (concat (map (entriesOfPost demoEnv) [demoPost, demoDeletedPost])) @
     map LeaveEvent demoLeaveEvents"
    by (simp add: c p i)
  with h c p e show ?thesis by blast
qed

text \<open>
  C7. If the store fails to return the attachments of a post that has file ids, the
  function returns the warning count zero and the error of \<open>postToAttachmentsEntries\<close>
  that wraps the cause of the first such failure, and no call is made on the export
  backend. If all attachments are fetched and the store fails to return the membership
  history of a channel, the function returns the warning count zero and the error of
  \<open>buildChannelExport\<close> that wraps the cause of the first such failure in the order in
  which the channels are visited, and no call is made on the export backend.
\<close>

theorem lookup_failure_is_fatal:
  "(Some post \<in> set posts \<and> me_PostFileIds post \<noteq> [] \<and>
    GetForPost env (me_PostId post) = Inl cause \<longrightarrow>
      (\<exists>before failing after cause'.
         posts = before @ Some failing # after \<and>
         (\<forall>p. Some p \<in> set before \<longrightarrow> (\<exists>r. postToAttachmentsEntries env p = Inr r)) \<and>
         me_PostFileIds failing \<noteq> [] \<and>
         GetForPost env (me_PostId failing) = Inl cause' \<and>
         ActianceExport env posts exportDirectory =
           ((0, Some (AppError ''postToAttachmentsEntries''
                        ''ent.message_export.actiance_export.get_attachment_error'' 500
                        cause')), []))) \<and>
   (postsLoop env posts initialCollected = Inr st \<and>
    channel \<in> set (rangedChannels env (metadata st)) \<and>
    GetUsersInChannelDuring env (mc_StartTime channel) (mc_EndTime channel)
      (mc_ChannelId channel) = Inl cause \<longrightarrow>
      (\<exists>before failing after cause'.
         rangedChannels env (metadata st) = before @ failing # after \<and>
         (\<forall>c\<in>set before. \<exists>rows.
            GetUsersInChannelDuring env (mc_StartTime c) (mc_EndTime c) (mc_ChannelId c)
              = Inr rows) \<and>
         GetUsersInChannelDuring env (mc_StartTime failing) (mc_EndTime failing)
           (mc_ChannelId failing) = Inl cause' \<and>
         ActianceExport env posts exportDirectory =
           ((0, Some (AppError ''buildChannelExport'' ''ent.get_users_in_channel_during'' 500
                        cause')), [])))"
proof (intro conjI impI)
  assume a: "Some post \<in> set posts \<and> me_PostFileIds post \<noteq> [] \<and>
    GetForPost env (me_PostId post) = Inl cause"
  then have "postToAttachmentsEntries env post =
      Inl (AppError ''postToAttachmentsEntries''
             ''ent.message_export.actiance_export.get_attachment_error'' 500 cause)"
    by (simp add: postToAttachmentsEntries_def)
  from postsLoop_Inl [OF _ this, of posts initialCollected] a
  obtain before failing after err' where
    h: "posts = before @ Some failing # after"
      "\<forall>p. Some p \<in> set before \<longrightarrow> (\<exists>r. postToAttachmentsEntries env p = Inr r)"
      "postToAttachmentsEntries env failing = Inl err'"
      "postsLoop env posts initialCollected = Inl err'"
    by blast
  from h(3) obtain cause' where
    c: "me_PostFileIds failing \<noteq> []" "GetForPost env (me_PostId failing) = Inl cause'"
      "err' = AppError ''postToAttachmentsEntries''
             ''ent.message_export.actiance_export.get_attachment_error'' 500 cause'"
    by (auto simp: postToAttachmentsEntries_def split: if_splits sum.splits)
  have "ActianceExport env posts exportDirectory = ((0, Some err'), [])"
    using h(4) by (simp add: ActianceExport_def exportRoot_def)
  with h(1,2) c show "\<exists>before failing after cause'.
         posts = before @ Some failing # after \<and>
         (\<forall>p. Some p \<in> set before \<longrightarrow> (\<exists>r. postToAttachmentsEntries env p = Inr r)) \<and>
         me_PostFileIds failing \<noteq> [] \<and>
         GetForPost env (me_PostId failing) = Inl cause' \<and>
         ActianceExport env posts exportDirectory =
           ((0, Some (AppError ''postToAttachmentsEntries''
                        ''ent.message_export.actiance_export.get_attachment_error'' 500
                        cause')), [])"
    by blast
next
  assume a: "postsLoop env posts initialCollected = Inr st \<and>
    channel \<in> set (rangedChannels env (metadata st)) \<and>
    GetUsersInChannelDuring env (mc_StartTime channel) (mc_EndTime channel)
      (mc_ChannelId channel) = Inl cause"
  then have st: "postsLoop env posts initialCollected = Inr st"
    and mem: "channel \<in> set (rangedChannels env (metadata st))"
    and f: "GetUsersInChannelDuring env (mc_StartTime channel) (mc_EndTime channel)
      (mc_ChannelId channel) = Inl cause"
    by blast+
  from channelsLoop_Inl [OF mem buildChannelExport_Inl [OF f], of st "[]"]
  obtain before failing after err' where
    h: "rangedChannels env (metadata st) = before @ failing # after"
      "\<forall>c\<in>set before. \<exists>ce.
              buildChannelExport env c (membersByChannel st (mc_ChannelId c))
                (elementsByChannel st (mc_ChannelId c)) = Inr ce"
      "buildChannelExport env failing (membersByChannel st (mc_ChannelId failing))
             (elementsByChannel st (mc_ChannelId failing)) = Inl err'"
      "channelsLoop env (rangedChannels env (metadata st)) st [] = Inl err'"
    by blast
  from h(3) obtain cause' where
    c: "GetUsersInChannelDuring env (mc_StartTime failing) (mc_EndTime failing)
           (mc_ChannelId failing) = Inl cause'"
      "err' = AppError ''buildChannelExport'' ''ent.get_users_in_channel_during'' 500 cause'"
    by (auto simp: buildChannelExport_def Let_def split: sum.splits prod.splits)
  have b: "\<forall>c\<in>set before. \<exists>rows.
            GetUsersInChannelDuring env (mc_StartTime c) (mc_EndTime c) (mc_ChannelId c)
              = Inr rows"
  proof
    fix c assume "c \<in> set before"
    with h(2) obtain ce where
      "buildChannelExport env c (membersByChannel st (mc_ChannelId c))
                (elementsByChannel st (mc_ChannelId c)) = Inr ce"
      by blast
    then show "\<exists>rows. GetUsersInChannelDuring env (mc_StartTime c) (mc_EndTime c)
        (mc_ChannelId c) = Inr rows"
      by (auto simp: buildChannelExport_def split: sum.splits)
  qed
  have "ActianceExport env posts exportDirectory = ((0, Some err'), [])"
    using st h(4) by (simp add: ActianceExport_def exportRoot_def)
  with h(1) b c show "\<exists>before failing after cause'.
         rangedChannels env (metadata st) = before @ failing # after \<and>
         (\<forall>c\<in>set before. \<exists>rows.
            GetUsersInChannelDuring env (mc_StartTime c) (mc_EndTime c) (mc_ChannelId c)
              = Inr rows) \<and>
         GetUsersInChannelDuring env (mc_StartTime failing) (mc_EndTime failing)
           (mc_ChannelId failing) = Inl cause' \<and>
         ActianceExport env posts exportDirectory =
           ((0, Some (AppError ''buildChannelExport'' ''ent.get_users_in_channel_during'' 500
                        cause')), [])"
    by blast
qed

theorem lookup_failure_is_fatal_witness:
  "Some demoFailingPost \<in> set [Some demoPost, Some demoFailingPost, Some demoDeletedPost] \<and>
   me_PostFileIds demoFailingPost \<noteq> [] \<and>
   GetForPost demoEnv (me_PostId demoFailingPost) = Inl ''store down'' \<and>
   ActianceExport demoEnv [Some demoPost, Some demoFailingPost, Some demoDeletedPost] ''out'' =
     ((0, Some (AppError ''postToAttachmentsEntries''
                  ''ent.message_export.actiance_export.get_attachment_error'' 500
                  ''store down'')), []) \<and>
   (\<exists>st channel.
      postsLoop demoEnv [Some demoOtherPost] initialCollected = Inr st \<and>
      channel \<in> set (rangedChannels demoEnv (metadata st)) \<and>
      GetUsersInChannelDuring demoEnv (mc_StartTime channel) (mc_EndTime channel)
        (mc_ChannelId channel) = Inl ''store down'') \<and>
   ActianceExport demoEnv [Some demoOtherPost] ''out'' =
     ((0, Some (AppError ''buildChannelExport'' ''ent.get_users_in_channel_during'' 500
                  ''store down'')), [])"
proof -
  let ?posts = "[Some demoPost, Some demoFailingPost, Some demoDeletedPost]"
  let ?st = "\<lparr>elementsByChannel = (\<lambda>c. [])(''c9'' := [demoElements ! 0]),
          allUploadedFiles = [],
          metadata =
            \<lparr>md_Channels = [''c9'' \<mapsto> demoChannel\<lparr>mc_ChannelId := ''c9''\<rparr>],
             md_MessagesCount = 0,
             md_AttachmentsCount = 0, md_StartTime = 0, md_EndTime = 0\<rparr>,
          membersByChannel =
            (\<lambda>c. Map.empty)
              (''c9'' := [''u1'' \<mapsto> \<lparr>cm_Email = ''a@x'', cm_UserId = ''u1'', cm_IsBot = False,
                                      cm_Username = ''alice''\<rparr>])\<rparr>"
  have a: "Some demoFailingPost \<in> set ?posts" by simp
  have b: "me_PostFileIds demoFailingPost \<noteq> []"
    by (simp add: demoFailingPost_def)
  have c: "GetForPost demoEnv (me_PostId demoFailingPost) = Inl ''store down''"
    by (simp add: demoFailingPost_def demoEnv_def)
  have d: "GetForPost demoEnv (me_PostId p) = Inl cause' \<Longrightarrow> cause' = ''store down''" for p cause'
    by (simp add: demoEnv_def split: if_splits)
  have s: "postsLoop demoEnv [Some demoOtherPost] initialCollected = Inr ?st"
    by (simp add: initialCollected_def demoOtherPost_def demoPost_def postEntries_def
        postToAttachmentsEntries_def postToExportEntry_def demoEnv_def demoElements_def)
  have r: "demoChannel\<lparr>mc_ChannelId := ''c9''\<rparr> \<in> set (rangedChannels demoEnv (metadata ?st))"
    by (simp add: rangedChannels_def demoEnv_def List.map_filter_simps)
  have g: "GetUsersInChannelDuring demoEnv (mc_StartTime (demoChannel\<lparr>mc_ChannelId := ''c9''\<rparr>))
        (mc_EndTime (demoChannel\<lparr>mc_ChannelId := ''c9''\<rparr>))
        (mc_ChannelId (demoChannel\<lparr>mc_ChannelId := ''c9''\<rparr>)) = Inl ''store down''"
    by (simp add: demoEnv_def)
  have g': "GetUsersInChannelDuring demoEnv s e i = Inl cause' \<Longrightarrow> cause' = ''store down''"
    for s e i cause'
    by (simp add: demoEnv_def split: if_splits)
  from lookup_failure_is_fatal [of demoFailingPost ?posts demoEnv "''store down''" "''out''"
      initialCollected demoChannel] a b c
  have A: "ActianceExport demoEnv ?posts ''out'' =
     ((0, Some (AppError ''postToAttachmentsEntries''
                  ''ent.message_export.actiance_export.get_attachment_error'' 500
                  ''store down'')), [])"
    using d by blast
  from lookup_failure_is_fatal [of demoFailingPost "[Some demoOtherPost]" demoEnv
      "''store down''" "''out''" ?st "demoChannel\<lparr>mc_ChannelId := ''c9''\<rparr>"] s r g
  have B: "ActianceExport demoEnv [Some demoOtherPost] ''out'' =
     ((0, Some (AppError ''buildChannelExport'' ''ent.get_users_in_channel_during'' 500
                  ''store down'')), [])"
    using g' by blast
  from a b c A B s r g show ?thesis by blast
qed

subsection \<open>The delivery\<close>


lemma uploadedFilesLoop_append:
  assumes "\<forall>f\<in>set before. \<not> copyFails env dir f"
  shows "uploadedFilesLoop env dir (before @ rest) (missing, calls) =
     uploadedFilesLoop env dir rest
       (missing @ map (missingFileLine env) (filter (\<lambda>f. \<not> readable env f) before),
        calls @ map (copyCall env dir) (filter (readable env) before))"
  using assms
proof (induction before arbitrary: missing calls)
  case Nil
  show ?case by simp
next
  case (Cons f fs)
  from Cons.prems have rest: "\<forall>g\<in>set fs. \<not> copyFails env dir g"
    and here: "\<not> copyFails env dir f" by simp_all
  show ?case
  proof (cases "Reader env (fi_Path f)")
    case (Inl nErr)
    then show ?thesis
      by (simp add: Cons.IH [OF rest] readable_def)
  next
    case (Inr src)
    with here have "WriteFile env (pathJoin env dir (fi_Path f)) src = None"
      by (simp add: copyFails_def)
    with Inr show ?thesis
      by (simp add: Cons.IH [OF rest] readable_def copyCall_def)
  qed
qed

lemma uploadedFilesLoop_copy_failure:
  assumes "\<forall>f\<in>set before. \<not> copyFails env dir f"
    and "Reader env (fi_Path f) = Inr src"
    and "WriteFile env (pathJoin env dir (fi_Path f)) src = Some e"
  shows "uploadedFilesLoop env dir (before @ f # after) (missing, calls) =
     (Inl (writeFileAppError e),
      calls @ map (copyCall env dir) (filter (readable env) before) @
      [WriteFileCall (pathJoin env dir (fi_Path f)) src])"
  using assms(2,3) by (simp add: uploadedFilesLoop_append [OF assms(1)])

lemma first_copy_failure:
  assumes "f \<in> set files" and "copyFails env dir f"
  shows "\<exists>before g after src e.
           files = before @ g # after \<and> (\<forall>h\<in>set before. \<not> copyFails env dir h) \<and>
           Reader env (fi_Path g) = Inr src \<and>
           WriteFile env (pathJoin env dir (fi_Path g)) src = Some e"
proof -
  from assms have "\<exists>x\<in>set files. copyFails env dir x" by blast
  from split_list_first_prop [OF this] obtain before g after where
    s: "files = before @ g # after" "copyFails env dir g"
      "\<forall>h\<in>set before. \<not> copyFails env dir h"
    by blast
  from s(2) obtain src e where "Reader env (fi_Path g) = Inr src"
    "WriteFile env (pathJoin env dir (fi_Path g)) src = Some e"
    by (auto simp: copyFails_def split: sum.splits)
  with s(1,3) show ?thesis by blast
qed


lemma writeExport_copy_failure:
  assumes enc: "xmlEncode env export = Inr encoded"
    and main: "TryWriteFileContext env (pathJoin env dir ActianceExportFilename)
                 (xmlHeader env @ encoded) = None"
    and "\<forall>f\<in>set before. \<not> copyFails env dir f"
    and "Reader env (fi_Path f) = Inr src"
    and "WriteFile env (pathJoin env dir (fi_Path f)) src = Some e"
  shows "writeExport env export (before @ f # after) dir =
     ((0, Some (writeFileAppError e)),
      TryWriteFileContextCall (pathJoin env dir ActianceExportFilename)
        (xmlHeader env @ encoded) #
      map (copyCall env dir) (filter (readable env) before) @
      [WriteFileCall (pathJoin env dir (fi_Path f)) src])"
  using enc main
  by (simp add: writeExport_def Let_def uploadedFilesLoop_copy_failure [OF assms(3-5)])

lemma demo_files:
  "readable demoEnv (demoFiles ! 0)" "\<not> readable demoEnv (demoFiles ! 1)"
  "\<not> copyFails demoEnv ''out'' (demoFiles ! 0)" "\<not> copyFails demoEnv ''out'' (demoFiles ! 1)"
  "copyFails demoEnv ''out'' (demoFullFiles ! 2)"
  by (simp_all add: readable_def copyFails_def demoEnv_def demoFiles_def demoFullFiles_def)

lemma demo_main:
  "xmlEncode demoEnv demoRoot = Inr ''<FileDump/>''"
  "TryWriteFileContext demoEnv (pathJoin demoEnv ''out'' ActianceExportFilename)
     (xmlHeader demoEnv @ ''<FileDump/>'') = None"
  by (simp_all add: demoEnv_def)

lemma demo_writeExport_full:
  "writeExport demoEnv demoRoot demoFullFiles ''out'' =
     ((0, Some (writeFileAppError ''disk full'')),
      [TryWriteFileContextCall ''out/actiance_export.xml'' ''<?xml?><FileDump/>'',
       WriteFileCall ''out/f/plan.pdf'' ''bytes'',
       WriteFileCall ''out/f/full.bin'' ''bytes''])"
  by (simp add: writeExport_def demoEnv_def demoFiles_def demoFullFiles_def
      ActianceExportFilename_def ActianceWarningFilename_def missingFileLine_def)



text \<open>
  C10. Let the document be encoded and written. If the copy of a readable file fails, the
  function returns the warning count zero with the error of the first such copy, however
  many of the files before it could not be read; the calls made are the write of the
  document and the copies up to the failing one, so that the warning file is not written.
\<close>

theorem copy_failure_discards_warnings:
  assumes enc: "xmlEncode env export = Inr encoded"
    and main: "TryWriteFileContext env (pathJoin env dir ActianceExportFilename)
                 (xmlHeader env @ encoded) = None"
    and mem: "f \<in> set files"
    and fails: "copyFails env dir f"
  shows "\<exists>before g after src e.
           files = before @ g # after \<and> (\<forall>h\<in>set before. \<not> copyFails env dir h) \<and>
           Reader env (fi_Path g) = Inr src \<and>
           WriteFile env (pathJoin env dir (fi_Path g)) src = Some e \<and>
           writeExport env export files dir =
             ((0, Some (writeFileAppError e)),
              TryWriteFileContextCall (pathJoin env dir ActianceExportFilename)
                (xmlHeader env @ encoded) #
              map (copyCall env dir) (filter (readable env) before) @
              [WriteFileCall (pathJoin env dir (fi_Path g)) src]) \<and>
           (\<forall>path content.
              TryWriteFileContextCall path content
                \<notin> set (tl (snd (writeExport env export files dir))))"
proof -
  from first_copy_failure [OF mem fails] obtain before g after src e where
    s: "files = before @ g # after" "\<forall>h\<in>set before. \<not> copyFails env dir h"
      "Reader env (fi_Path g) = Inr src"
      "WriteFile env (pathJoin env dir (fi_Path g)) src = Some e"
    by blast
  note w = writeExport_copy_failure [OF enc main s(2,3,4), of after]
  have "\<forall>path content.
          TryWriteFileContextCall path content
            \<notin> set (tl (snd (writeExport env export (before @ g # after) dir)))"
    by (auto simp: w copyCall_def)
  with w s show ?thesis
    by (intro exI [of _ before] exI [of _ g] exI [of _ after] exI [of _ src] exI [of _ e]) simp
qed

theorem copy_failure_discards_warnings_witness:
  "xmlEncode demoEnv demoRoot = Inr ''<FileDump/>'' \<and>
   TryWriteFileContext demoEnv (pathJoin demoEnv ''out'' ActianceExportFilename)
     (xmlHeader demoEnv @ ''<FileDump/>'') = None \<and>
   demoFullFiles ! 2 \<in> set demoFullFiles \<and> copyFails demoEnv ''out'' (demoFullFiles ! 2) \<and>
   demoFullFiles ! 1 \<in> set demoFullFiles \<and> \<not> readable demoEnv (demoFullFiles ! 1) \<and>
   (\<exists>before g after src e.
      demoFullFiles = before @ g # after \<and>
      writeExport demoEnv demoRoot demoFullFiles ''out'' =
        ((0, Some (writeFileAppError e)),
         TryWriteFileContextCall (pathJoin demoEnv ''out'' ActianceExportFilename)
           (xmlHeader demoEnv @ ''<FileDump/>'') #
         map (copyCall demoEnv ''out'') (filter (readable demoEnv) before) @
         [WriteFileCall (pathJoin demoEnv ''out'' (fi_Path g)) src])) \<and>
   writeExport demoEnv demoRoot demoFullFiles ''out'' =
     ((0, Some (writeFileAppError ''disk full'')),
      [TryWriteFileContextCall ''out/actiance_export.xml'' ''<?xml?><FileDump/>'',
       WriteFileCall ''out/f/plan.pdf'' ''bytes'',
       WriteFileCall ''out/f/full.bin'' ''bytes''])"
proof -
  have m: "demoFullFiles ! 2 \<in> set demoFullFiles" "demoFullFiles ! 1 \<in> set demoFullFiles"
    by (simp_all add: demoFullFiles_def demoFiles_def)
  have r: "\<not> readable demoEnv (demoFullFiles ! 1)"
    by (simp add: readable_def demoEnv_def demoFullFiles_def demoFiles_def)
  from copy_failure_discards_warnings [OF demo_main m(1) demo_files(5)]
  have "\<exists>before g after src e.
      demoFullFiles = before @ g # after \<and>
      writeExport demoEnv demoRoot demoFullFiles ''out'' =
        ((0, Some (writeFileAppError e)),
         TryWriteFileContextCall (pathJoin demoEnv ''out'' ActianceExportFilename)
           (xmlHeader demoEnv @ ''<FileDump/>'') #
         map (copyCall demoEnv ''out'') (filter (readable demoEnv) before) @
         [WriteFileCall (pathJoin demoEnv ''out'' (fi_Path g)) src])"
    by blast
  with demo_main m r demo_files(5) demo_writeExport_full show ?thesis
    by blast
qed

end
